theory Spec2Isabelle
  imports Complex_Main "HOL-Library.Sublist"
begin

section \<open>Product catalog API: data model\<close>

text \<open>
  The backend is a FastAPI application over an in-memory list of products. This theory
  embeds \<^verbatim>\<open>app/models/product.py\<close>, \<^verbatim>\<open>app/models/error.py\<close>,
  \<^verbatim>\<open>app/data/seed_products.py\<close>, \<^verbatim>\<open>app/services/product_service.py\<close>,
  \<^verbatim>\<open>app/api/products.py\<close> and the health endpoint of \<^verbatim>\<open>app/main.py\<close>.
\<close>

subsection \<open>Decimal prices\<close>

text \<open>
  Python's \<^verbatim>\<open>Decimal("29.99")\<close> is the exact number 2999 / 100. A decimal literal with
  coefficient \<open>m\<close> and \<open>e\<close> fractional digits is the rational \<open>m / 10 ^ e\<close>.
\<close>

definition Decimal :: "int \<Rightarrow> nat \<Rightarrow> rat" where
  "Decimal m e = of_int m / 10 ^ e"

subsection \<open>models/product.py\<close>

text \<open>
  \<^verbatim>\<open>ProductCategory = Literal["electronics", "clothing", "home", "sports", "books"]\<close>:
  a category is a string, and these are the strings the type admits.
\<close>

definition ProductCategory :: "string list" where
  "ProductCategory = [''electronics'', ''clothing'', ''home'', ''sports'', ''books'']"

record Product =
  product_id :: int
  product_name :: string
  product_description :: string
  product_price_usd :: rat
  product_category :: string
  product_in_stock :: bool

text \<open>
  The field constraints that pydantic checks when a \<^verbatim>\<open>Product\<close> is constructed:
  \<^verbatim>\<open>gt=0\<close> on the id and the price, \<^verbatim>\<open>decimal_places=2\<close> on the price, the length
  bounds on name and description, and membership of the category in the literal type.
\<close>

definition Product_valid :: "Product \<Rightarrow> bool" where
  "Product_valid p \<longleftrightarrow>
     0 < product_id p \<and>
     1 \<le> length (product_name p) \<and> length (product_name p) \<le> 200 \<and>
     1 \<le> length (product_description p) \<and> length (product_description p) \<le> 1000 \<and>
     0 < product_price_usd p \<and> product_price_usd p * 100 \<in> \<int> \<and>
     product_category p \<in> set ProductCategory"

record ProductListResponse =
  products :: "Product list"
  total_count :: int

subsection \<open>models/error.py\<close>

text \<open>
  The error model of the API. \<^verbatim>\<open>error_details\<close> is an optional dictionary, kept as an
  association list; \<^verbatim>\<open>timestamp_utc\<close> is filled from the clock when the object is
  built, so it is a field the caller of the model supplies.
\<close>

record ErrorResponse =
  error_code :: string
  error_message :: string
  error_details :: "(string \<times> string) list option"
  timestamp_utc :: string

subsection \<open>data/seed_products.py\<close>

definition get_seed_products :: "Product list" where
  "get_seed_products = [
     \<lparr> product_id = 1,
       product_name = ''Wireless Bluetooth Mouse'',
       product_description = ''Ergonomic wireless mouse with 2.4GHz USB receiver and long-lasting battery life'',
       product_price_usd = Decimal 2999 2,
       product_category = ''electronics'',
       product_in_stock = True \<rparr>,
     \<lparr> product_id = 2,
       product_name = ''Mechanical Gaming Keyboard'',
       product_description = ''RGB backlit mechanical keyboard with blue switches and programmable macros'',
       product_price_usd = Decimal 8999 2,
       product_category = ''electronics'',
       product_in_stock = True \<rparr>,
     \<lparr> product_id = 3,
       product_name = ''USB-C Hub 7-in-1'',
       product_description = ''Multi-port USB-C hub with HDMI, SD card reader, and 100W power delivery'',
       product_price_usd = Decimal 4599 2,
       product_category = ''electronics'',
       product_in_stock = True \<rparr>,
     \<lparr> product_id = 4,
       product_name = ''Wireless Earbuds Pro'',
       product_description = ''Active noise cancelling wireless earbuds with 30-hour battery life and charging case'',
       product_price_usd = Decimal 14999 2,
       product_category = ''electronics'',
       product_in_stock = False \<rparr>,
     \<lparr> product_id = 5,
       product_name = ''4K Webcam'',
       product_description = ''Ultra HD 4K webcam with autofocus, ring light, and dual microphones'',
       product_price_usd = Decimal 11999 2,
       product_category = ''electronics'',
       product_in_stock = True \<rparr>,
     \<lparr> product_id = 6,
       product_name = ''Portable SSD 1TB'',
       product_description = ''Ultra-fast portable solid state drive with USB 3.2 Gen 2 speeds up to 1050MB/s'',
       product_price_usd = Decimal 12999 2,
       product_category = ''electronics'',
       product_in_stock = True \<rparr>,
     \<lparr> product_id = 7,
       product_name = ''Smart LED Light Bulb'',
       product_description = ''WiFi-enabled color-changing LED bulb compatible with Alexa and Google Home'',
       product_price_usd = Decimal 1999 2,
       product_category = ''electronics'',
       product_in_stock = True \<rparr>,
     \<lparr> product_id = 8,
       product_name = ''Wireless Charger Stand'',
       product_description = ''15W fast wireless charging stand with adjustable viewing angle for smartphones'',
       product_price_usd = Decimal 3499 2,
       product_category = ''electronics'',
       product_in_stock = True \<rparr>,
     \<lparr> product_id = 9,
       product_name = ''Classic Cotton T-Shirt'',
       product_description = ''100% organic cotton crew neck t-shirt available in multiple colors'',
       product_price_usd = Decimal 2499 2,
       product_category = ''clothing'',
       product_in_stock = True \<rparr>,
     \<lparr> product_id = 10,
       product_name = ''Slim Fit Denim Jeans'',
       product_description = ''Stretch denim jeans with modern slim fit and classic 5-pocket styling'',
       product_price_usd = Decimal 5999 2,
       product_category = ''clothing'',
       product_in_stock = True \<rparr>,
     \<lparr> product_id = 11,
       product_name = ''Hooded Zip Sweatshirt'',
       product_description = ''Comfortable fleece-lined hoodie with full zip and kangaroo pockets'',
       product_price_usd = Decimal 4499 2,
       product_category = ''clothing'',
       product_in_stock = True \<rparr>,
     \<lparr> product_id = 12,
       product_name = ''Running Jacket Windbreaker'',
       product_description = ''Lightweight water-resistant windbreaker with reflective details for running'',
       product_price_usd = Decimal 6999 2,
       product_category = ''clothing'',
       product_in_stock = False \<rparr>,
     \<lparr> product_id = 13,
       product_name = ''Merino Wool Beanie'',
       product_description = ''Soft merino wool winter beanie hat with fold-over cuff design'',
       product_price_usd = Decimal 2999 2,
       product_category = ''clothing'',
       product_in_stock = True \<rparr>,
     \<lparr> product_id = 14,
       product_name = ''Canvas Sneakers'',
       product_description = ''Classic low-top canvas sneakers with rubber sole and cushioned insole'',
       product_price_usd = Decimal 5499 2,
       product_category = ''clothing'',
       product_in_stock = True \<rparr>,
     \<lparr> product_id = 15,
       product_name = ''Leather Crossbody Bag'',
       product_description = ''Genuine leather crossbody bag with adjustable strap and multiple compartments'',
       product_price_usd = Decimal 8999 2,
       product_category = ''clothing'',
       product_in_stock = True \<rparr>,
     \<lparr> product_id = 16,
       product_name = ''Stainless Steel French Press'',
       product_description = ''34oz double-wall insulated French press coffee maker with heat-resistant handle'',
       product_price_usd = Decimal 3999 2,
       product_category = ''home'',
       product_in_stock = True \<rparr>,
     \<lparr> product_id = 17,
       product_name = ''Ceramic Non-Stick Frying Pan'',
       product_description = ''10-inch ceramic-coated frying pan with ergonomic handle and even heat distribution'',
       product_price_usd = Decimal 4999 2,
       product_category = ''home'',
       product_in_stock = True \<rparr>,
     \<lparr> product_id = 18,
       product_name = ''Memory Foam Pillow Set'',
       product_description = ''Set of 2 bamboo-covered memory foam pillows with adjustable fill for custom comfort'',
       product_price_usd = Decimal 7999 2,
       product_category = ''home'',
       product_in_stock = True \<rparr>,
     \<lparr> product_id = 19,
       product_name = ''Smart Robot Vacuum'',
       product_description = ''App-controlled robot vacuum with auto-recharge and scheduled cleaning features'',
       product_price_usd = Decimal 29999 2,
       product_category = ''home'',
       product_in_stock = False \<rparr>,
     \<lparr> product_id = 20,
       product_name = ''Bamboo Cutting Board Set'',
       product_description = ''Set of 3 bamboo cutting boards with juice grooves and non-slip feet'',
       product_price_usd = Decimal 3499 2,
       product_category = ''home'',
       product_in_stock = True \<rparr>,
     \<lparr> product_id = 21,
       product_name = ''Aromatherapy Essential Oil Diffuser'',
       product_description = ''Ultrasonic essential oil diffuser with 7 LED light colors and auto shut-off'',
       product_price_usd = Decimal 2999 2,
       product_category = ''home'',
       product_in_stock = True \<rparr>,
     \<lparr> product_id = 22,
       product_name = ''Weighted Blanket 15lbs'',
       product_description = ''Premium weighted blanket with glass beads and soft breathable cotton cover'',
       product_price_usd = Decimal 8999 2,
       product_category = ''home'',
       product_in_stock = True \<rparr>,
     \<lparr> product_id = 23,
       product_name = ''Yoga Mat with Carrying Strap'',
       product_description = ''6mm thick non-slip yoga mat with alignment marks and free carrying strap'',
       product_price_usd = Decimal 3999 2,
       product_category = ''sports'',
       product_in_stock = True \<rparr>,
     \<lparr> product_id = 24,
       product_name = ''Adjustable Dumbbell Set'',
       product_description = ''Pair of adjustable dumbbells from 5-52.5 lbs with quick-change dial system'',
       product_price_usd = Decimal 49999 2,
       product_category = ''sports'',
       product_in_stock = True \<rparr>,
     \<lparr> product_id = 25,
       product_name = ''Resistance Bands Set'',
       product_description = ''Set of 5 resistance bands with handles, door anchor, and carrying bag'',
       product_price_usd = Decimal 2499 2,
       product_category = ''sports'',
       product_in_stock = True \<rparr>,
     \<lparr> product_id = 26,
       product_name = ''Foam Roller for Muscle Recovery'',
       product_description = ''High-density foam roller for deep tissue massage and muscle recovery'',
       product_price_usd = Decimal 2999 2,
       product_category = ''sports'',
       product_in_stock = True \<rparr>,
     \<lparr> product_id = 27,
       product_name = ''Sports Water Bottle 32oz'',
       product_description = ''Insulated stainless steel water bottle keeps drinks cold for 24 hours'',
       product_price_usd = Decimal 3499 2,
       product_category = ''sports'',
       product_in_stock = False \<rparr>,
     \<lparr> product_id = 28,
       product_name = ''The Pragmatic Programmer'',
       product_description = ''Classic software development book with timeless programming wisdom and best practices'',
       product_price_usd = Decimal 4499 2,
       product_category = ''books'',
       product_in_stock = True \<rparr>,
     \<lparr> product_id = 29,
       product_name = ''Atomic Habits'',
       product_description = ''Science-backed strategies for building good habits and breaking bad ones'',
       product_price_usd = Decimal 1699 2,
       product_category = ''books'',
       product_in_stock = True \<rparr>,
     \<lparr> product_id = 30,
       product_name = ''The Design of Everyday Things'',
       product_description = ''Foundational book on user-centered design and human-computer interaction'',
       product_price_usd = Decimal 2499 2,
       product_category = ''books'',
       product_in_stock = True \<rparr> ]"

section \<open>Structured logging (core/logging_config.py)\<close>

text \<open>
  \<^verbatim>\<open>StructuredLogger.info(message, **fields)\<close> builds a record at level INFO carrying
  the keyword fields and hands it to the handlers, which print one JSON line on
  standard output. The output is kept as the list of records handed over, newest last;
  the time stamp the formatter adds is left out.
\<close>

datatype field_value = IntField int | StrField string

record log_record =
  level :: string
  logger_name :: string
  message :: string
  extra_fields :: "(string \<times> field_value) list"

section \<open>Application state\<close>

text \<open>
  The module-level list \<^verbatim>\<open>_PRODUCTS_DATABASE\<close> of \<^verbatim>\<open>product_service.py\<close> (an
  Isabelle name cannot start with an underscore) and the log lines written so far.
\<close>

record app_state =
  PRODUCTS_DATABASE :: "Product list"
  stdout_log :: "log_record list"

definition logger_info ::
    "string \<Rightarrow> string \<Rightarrow> (string \<times> field_value) list \<Rightarrow> app_state \<Rightarrow> app_state" where
  "logger_info name msg kwargs s =
     s\<lparr>stdout_log := stdout_log s @
        [\<lparr>level = ''INFO'', logger_name = name, message = msg, extra_fields = kwargs\<rparr>]\<rparr>"

text \<open>
  \<^verbatim>\<open>_PRODUCTS_DATABASE: list[Product] = get_seed_products()\<close>, evaluated once when the
  service module is imported.
\<close>

definition initial_state :: app_state where
  "initial_state = \<lparr>PRODUCTS_DATABASE = get_seed_products, stdout_log = []\<rparr>"

section \<open>services/product_service.py\<close>

definition get_all_products :: "app_state \<Rightarrow> Product list \<times> app_state" where
  "get_all_products s =
     (let s1 = logger_info ''app.services.product_service'' ''retrieving_all_products''
                 [(''total_products_in_database'', IntField (int (length (PRODUCTS_DATABASE s)))),
                  (''operation'', StrField ''get_all_products'')] s;
          s2 = logger_info ''app.services.product_service'' ''products_retrieved_successfully''
                 [(''products_returned'', IntField (int (length (PRODUCTS_DATABASE s1)))),
                  (''operation'', StrField ''get_all_products'')] s1
      in (PRODUCTS_DATABASE s2, s2))"

section \<open>api/products.py\<close>

text \<open>
  The handler \<^verbatim>\<open>get_products()\<close> takes no argument: it logs, asks the service for all
  products, logs again and wraps the list with its length.
\<close>

definition get_products :: "app_state \<Rightarrow> ProductListResponse \<times> app_state" where
  "get_products s =
     (let s1 = logger_info ''app.api.products'' ''api_request_received''
                 [(''endpoint'', StrField ''/api/products''), (''http_method'', StrField ''GET''),
                  (''operation'', StrField ''get_products'')] s;
          (prods, s2) = get_all_products s1;
          s3 = logger_info ''app.api.products'' ''api_response_prepared''
                 [(''endpoint'', StrField ''/api/products''),
                  (''products_count'', IntField (int (length prods))),
                  (''operation'', StrField ''get_products'')] s2
      in (\<lparr>products = prods, total_count = int (length prods)\<rparr>, s3))"

section \<open>main.py: the health endpoint\<close>

definition health_check :: "app_state \<Rightarrow> (string \<times> string) list \<times> app_state" where
  "health_check s =
     (let s1 = logger_info ''app.main'' ''health_check_request''
                 [(''endpoint'', StrField ''/health'')] s
      in ([(''status'', ''healthy'')], s1))"

section \<open>Requests and responses\<close>

text \<open>
  The optional query parameters a client may put on \<^verbatim>\<open>GET /api/products\<close>, already
  parsed: price bounds as decimals, category and keyword as text.
\<close>

record criteria =
  min_price :: "rat option"
  max_price :: "rat option"
  category :: "string option"
  keyword :: "string option"

definition no_criteria :: criteria where
  "no_criteria = \<lparr>min_price = None, max_price = None, category = None, keyword = None\<rparr>"

datatype request =
    GetProducts criteria
  | GetHealth "(string \<times> string) list"

datatype response_body =
    ProductListBody ProductListResponse
  | ErrorBody ErrorResponse
  | JsonObject "(string \<times> string) list"

record http_response =
  status_code :: nat
  body :: response_body

text \<open>
  The router binds the query parameters a handler declares and calls it. Both handlers
  declare none (\<^verbatim>\<open>async def get_products()\<close>, \<^verbatim>\<open>async def health_check()\<close>), so the
  query of the request does not reach them; a handler that returns normally is answered
  with status 200 and its return value as the body.
\<close>

fun handle :: "request \<Rightarrow> app_state \<Rightarrow> http_response \<times> app_state" where
  "handle (GetProducts c) s =
     (let (r, s') = get_products s
      in (\<lparr>status_code = 200, body = ProductListBody r\<rparr>, s'))"
| "handle (GetHealth q) s =
     (let (r, s') = health_check s
      in (\<lparr>status_code = 200, body = JsonObject r\<rparr>, s'))"

text \<open>The state after the application has served a sequence of requests, in order.\<close>

fun serve :: "request list \<Rightarrow> app_state \<Rightarrow> app_state" where
  "serve [] s = s"
| "serve (r # rs) s = serve rs (snd (handle r s))"

fun is_error_body :: "response_body \<Rightarrow> bool" where
  "is_error_body (ErrorBody e) = True"
| "is_error_body (ProductListBody r) = False"
| "is_error_body (JsonObject j) = False"

fun response_products :: "http_response \<Rightarrow> Product list" where
  "response_products r =
     (case body r of ProductListBody l \<Rightarrow> products l | ErrorBody e \<Rightarrow> [] | JsonObject j \<Rightarrow> [])"

section \<open>The filter of the specification\<close>

text \<open>
  The source has no filter. The predicates below are written from the words of the
  specification, to compare the endpoint with them: the price bounds are inclusive, the
  category match is exact, and the keyword matches when it occurs, letter case ignored,
  in the name or in the description.
\<close>

text \<open>\<^verbatim>\<open>str.lower()\<close> on the letters A to Z; every other character is kept.\<close>

definition lower_char :: "char \<Rightarrow> char" where
  "lower_char ch =
     (case map_of (zip ''ABCDEFGHIJKLMNOPQRSTUVWXYZ'' ''abcdefghijklmnopqrstuvwxyz'') ch of
        Some l \<Rightarrow> l
      | None \<Rightarrow> ch)"

definition lower :: "string \<Rightarrow> string" where
  "lower s = map lower_char s"

fun starts_with :: "string \<Rightarrow> string \<Rightarrow> bool" where
  "starts_with s [] = True"
| "starts_with [] (k # ks) = False"
| "starts_with (x # xs) (k # ks) = (x = k \<and> starts_with xs ks)"

text \<open>\<^verbatim>\<open>k in s\<close> on Python strings.\<close>

fun str_contains :: "string \<Rightarrow> string \<Rightarrow> bool" where
  "str_contains [] k = (k = [])"
| "str_contains (x # xs) k = (starts_with (x # xs) k \<or> str_contains xs k)"

definition spec_keyword_matches :: "string \<Rightarrow> Product \<Rightarrow> bool" where
  "spec_keyword_matches kw p \<longleftrightarrow>
     str_contains (lower (product_name p)) (lower kw) \<or>
     str_contains (lower (product_description p)) (lower kw)"

definition spec_satisfies :: "criteria \<Rightarrow> Product \<Rightarrow> bool" where
  "spec_satisfies c p \<longleftrightarrow>
     (case min_price c of None \<Rightarrow> True | Some lo \<Rightarrow> lo \<le> product_price_usd p) \<and>
     (case max_price c of None \<Rightarrow> True | Some hi \<Rightarrow> product_price_usd p \<le> hi) \<and>
     (case category c of None \<Rightarrow> True | Some cat \<Rightarrow> product_category p = cat) \<and>
     (case keyword c of None \<Rightarrow> True | Some kw \<Rightarrow> spec_keyword_matches kw p)"

definition spec_filter :: "criteria \<Rightarrow> Product list \<Rightarrow> Product list" where
  "spec_filter c catalog = filter (spec_satisfies c) catalog"

section \<open>Basic facts about the handlers\<close>

lemma logger_info_db: "PRODUCTS_DATABASE (logger_info n m k s) = PRODUCTS_DATABASE s"
  by (simp add: logger_info_def)

lemma get_all_products_result: "fst (get_all_products s) = PRODUCTS_DATABASE s"
  by (simp add: get_all_products_def Let_def logger_info_db)

lemma get_all_products_db: "PRODUCTS_DATABASE (snd (get_all_products s)) = PRODUCTS_DATABASE s"
  by (simp add: get_all_products_def Let_def logger_info_db)

lemma get_products_result:
  "fst (get_products s) =
     \<lparr>products = PRODUCTS_DATABASE s, total_count = int (length (PRODUCTS_DATABASE s))\<rparr>"
  by (simp add: get_products_def Let_def case_prod_beta get_all_products_result logger_info_db)

lemma get_products_db: "PRODUCTS_DATABASE (snd (get_products s)) = PRODUCTS_DATABASE s"
  by (simp add: get_products_def Let_def case_prod_beta get_all_products_db logger_info_db)

lemma handle_products_response:
  "fst (handle (GetProducts c) s) =
     \<lparr>status_code = 200,
      body = ProductListBody \<lparr>products = PRODUCTS_DATABASE s,
                              total_count = int (length (PRODUCTS_DATABASE s))\<rparr>\<rparr>"
  by (simp add: case_prod_beta get_products_result)

lemma handle_products_list:
  "response_products (fst (handle (GetProducts c) s)) = PRODUCTS_DATABASE s"
  by (simp add: handle_products_response del: handle.simps)

lemma handle_health_response:
  "fst (handle (GetHealth q) s) =
     \<lparr>status_code = 200, body = JsonObject [(''status'', ''healthy'')]\<rparr>"
  by (simp add: health_check_def Let_def)

lemma handle_db: "PRODUCTS_DATABASE (snd (handle r s)) = PRODUCTS_DATABASE s"
  by (cases r)
     (simp_all add: case_prod_beta get_products_db health_check_def Let_def logger_info_db)

lemma serve_db: "PRODUCTS_DATABASE (serve rs s) = PRODUCTS_DATABASE s"
  by (induction rs arbitrary: s) (simp_all add: handle_db)

lemma initial_db: "PRODUCTS_DATABASE initial_state = get_seed_products"
  by (simp add: initial_state_def)

text \<open>Every request logs: the handlers do write to the state, but only to the log.\<close>

lemma handle_log_grows: "length (stdout_log s) < length (stdout_log (snd (handle r s)))"
  by (cases r)
     (simp_all add: case_prod_beta get_products_def get_all_products_def health_check_def
        Let_def logger_info_def)

section \<open>The seed data\<close>

lemma length_seed: "length get_seed_products = 30"
  by (simp add: get_seed_products_def)

lemma ids_seed: "map product_id get_seed_products = [1..30]"
  by code_simp

text \<open>
  Each of the thirty constructor calls passes the field validation, so building the
  list raises nothing.
\<close>

lemma seed_valid: "list_all Product_valid get_seed_products"
  by (simp add: get_seed_products_def Product_valid_def ProductCategory_def Decimal_def)

lemma other_categories_seed:
  "length (filter (\<lambda>p. product_category p \<noteq> ''electronics'') get_seed_products) = 22"
  by (simp add: get_seed_products_def)

lemma electronics_seed:
  "map product_id (filter (\<lambda>p. product_category p = ''electronics'') get_seed_products) =
     [1, 2, 3, 4, 5, 6, 7, 8]"
  by (simp add: get_seed_products_def)

section \<open>The substring test\<close>

lemma starts_with_prefix: "starts_with s k \<longleftrightarrow> prefix k s"
  by (induction s k rule: starts_with.induct) auto

lemma str_contains_sublist: "str_contains s k \<longleftrightarrow> sublist k s"
  by (induction s) (simp_all add: starts_with_prefix sublist_Cons_right)

lemma spec_filter_no_criteria: "spec_filter no_criteria catalog = catalog"
  by (simp add: spec_filter_def spec_satisfies_def no_criteria_def)

section \<open>The products endpoint against the specification\<close>

text \<open>
  C1, as amended. The endpoint applies no filter: for every catalog and every choice of
  the optional criteria it returns every record of the catalog, in order, whether or not
  the record satisfies the criteria. The returned records are exactly those that satisfy
  every provided criterion when no criterion is provided, an absent criterion imposing
  no constraint.
\<close>

theorem products_endpoint_applies_no_filter:
  "response_products (fst (handle (GetProducts c) s)) = PRODUCTS_DATABASE s \<and>
   response_products (fst (handle (GetProducts no_criteria) s)) =
     spec_filter no_criteria (PRODUCTS_DATABASE s)"
  by (simp only: handle_products_list spec_filter_no_criteria)

text \<open>
  C1 as stated fails: asked for a minimum price of 100, the endpoint returns the
  Wireless Bluetooth Mouse at 29.99, so its answer is not the filtered catalog.
\<close>

theorem products_filter_counterexample:
  "get_seed_products ! 0 \<in> set (response_products (fst (handle (GetProducts
       \<lparr>min_price = Some 100, max_price = None, category = None, keyword = None\<rparr>)
       initial_state))) \<and>
   \<not> spec_satisfies
       \<lparr>min_price = Some 100, max_price = None, category = None, keyword = None\<rparr>
       (get_seed_products ! 0) \<and>
   response_products (fst (handle (GetProducts
       \<lparr>min_price = Some 100, max_price = None, category = None, keyword = None\<rparr>)
       initial_state)) \<noteq>
   spec_filter \<lparr>min_price = Some 100, max_price = None, category = None, keyword = None\<rparr>
     (PRODUCTS_DATABASE initial_state)"
proof -
  let ?c = "\<lparr>min_price = Some 100, max_price = None, category = None, keyword = None\<rparr>"
  have unsat: "\<not> spec_satisfies ?c (get_seed_products ! 0)"
    by (simp add: spec_satisfies_def get_seed_products_def Decimal_def)
  have mem: "get_seed_products ! 0 \<in> set get_seed_products"
    by (rule nth_mem) (simp add: length_seed)
  have "get_seed_products ! 0 \<notin> set (spec_filter ?c get_seed_products)"
    using unsat by (simp add: spec_filter_def)
  with mem have "get_seed_products \<noteq> spec_filter ?c get_seed_products"
    by metis
  with unsat mem show ?thesis
    by (simp only: handle_products_list initial_db) simp
qed

text \<open>
  C2, as amended. For every request in which both price bounds are supplied and the
  minimum exceeds the maximum, the endpoint validates nothing: it answers 200 with the
  complete catalog and its count, builds no error response, and performs no filtering.
\<close>

theorem inverted_price_range_is_served:
  assumes "min_price c = Some lo" and "max_price c = Some hi" and "hi < lo"
  shows "fst (handle (GetProducts c) s) =
           \<lparr>status_code = 200,
            body = ProductListBody \<lparr>products = PRODUCTS_DATABASE s,
                                    total_count = int (length (PRODUCTS_DATABASE s))\<rparr>\<rparr>"
  by (rule handle_products_response)

theorem inverted_price_range_is_served_witness:
  "min_price \<lparr>min_price = Some 100, max_price = Some 50, category = None, keyword = None\<rparr>
     = Some 100 \<and>
   max_price \<lparr>min_price = Some 100, max_price = Some 50, category = None, keyword = None\<rparr>
     = Some 50 \<and>
   (50 :: rat) < 100 \<and>
   fst (handle (GetProducts
       \<lparr>min_price = Some 100, max_price = Some 50, category = None, keyword = None\<rparr>)
       initial_state) =
     \<lparr>status_code = 200,
      body = ProductListBody \<lparr>products = get_seed_products, total_count = 30\<rparr>\<rparr>"
proof -
  let ?c = "\<lparr>min_price = Some 100, max_price = Some 50, category = None, keyword = None\<rparr>"
  have lo: "min_price ?c = Some 100" by simp
  have hi: "max_price ?c = Some 50" by simp
  have lt: "(50 :: rat) < 100" by simp
  from inverted_price_range_is_served [OF lo hi lt, of initial_state] lo hi lt
  show ?thesis by (simp add: initial_db length_seed del: handle.simps)
qed

text \<open>
  C2 as stated fails: for \<open>min_price = 100\<close> and \<open>max_price = 50\<close> the status is 200, not
  400, and the body is the product list, not an error.
\<close>

theorem invalid_price_range_counterexample:
  "status_code (fst (handle (GetProducts
       \<lparr>min_price = Some 100, max_price = Some 50, category = None, keyword = None\<rparr>)
       initial_state)) = 200 \<and>
   status_code (fst (handle (GetProducts
       \<lparr>min_price = Some 100, max_price = Some 50, category = None, keyword = None\<rparr>)
       initial_state)) \<noteq> 400 \<and>
   \<not> is_error_body (body (fst (handle (GetProducts
       \<lparr>min_price = Some 100, max_price = Some 50, category = None, keyword = None\<rparr>)
       initial_state))) \<and>
   response_products (fst (handle (GetProducts
       \<lparr>min_price = Some 100, max_price = Some 50, category = None, keyword = None\<rparr>)
       initial_state)) = get_seed_products"
  by (simp add: handle_products_response initial_db del: handle.simps)

text \<open>
  C3. A request with no filter parameter is answered with the full catalog unchanged:
  thirty records, with the identifiers 1 to 30 in catalog order, and a count of 30. This
  holds after any sequence of earlier requests.
\<close>

theorem no_filter_returns_full_catalog:
  "fst (handle (GetProducts no_criteria) (serve rs initial_state)) =
     \<lparr>status_code = 200,
      body = ProductListBody \<lparr>products = get_seed_products, total_count = 30\<rparr>\<rparr> \<and>
   length get_seed_products = 30 \<and>
   map product_id get_seed_products = [1..30]"
  by (simp add: handle_products_response serve_db initial_db length_seed ids_seed
        del: handle.simps)

text \<open>
  C4, as amended. The endpoint applies no keyword filter, so only one direction of the
  equivalence holds: for every keyword, every catalog record in whose name or
  description the keyword occurs, letter case ignored, is returned (records without the
  keyword are returned as well). In particular a record with "Wireless" in its name is
  returned for the keyword "wireless" in whatever letter case the query uses.
\<close>

theorem keyword_matches_are_returned:
  assumes "p \<in> set (PRODUCTS_DATABASE s)" and "keyword c = Some kw"
    and "spec_keyword_matches kw p"
  shows "p \<in> set (response_products (fst (handle (GetProducts c) s)))"
  using assms(1) by (simp only: handle_products_list)

theorem keyword_matches_are_returned_witness:
  "get_seed_products ! 0 \<in> set (PRODUCTS_DATABASE initial_state) \<and>
   keyword \<lparr>min_price = None, max_price = None, category = None,
            keyword = Some ''wIrElEsS''\<rparr> = Some ''wIrElEsS'' \<and>
   spec_keyword_matches ''wIrElEsS'' (get_seed_products ! 0) \<and>
   str_contains (product_name (get_seed_products ! 0)) ''Wireless'' \<and>
   get_seed_products ! 0 \<in> set (response_products (fst (handle (GetProducts
       \<lparr>min_price = None, max_price = None, category = None, keyword = Some ''wIrElEsS''\<rparr>)
       initial_state)))"
proof -
  let ?c = "\<lparr>min_price = None, max_price = None, category = None,
             keyword = Some ''wIrElEsS''\<rparr>"
  have mem: "get_seed_products ! 0 \<in> set (PRODUCTS_DATABASE initial_state)"
    unfolding initial_db by (rule nth_mem) (simp add: length_seed)
  have kw: "keyword ?c = Some ''wIrElEsS''" by simp
  have hit: "spec_keyword_matches ''wIrElEsS'' (get_seed_products ! 0)"
    by (simp add: spec_keyword_matches_def get_seed_products_def lower_def lower_char_def)
  have name: "str_contains (product_name (get_seed_products ! 0)) ''Wireless''"
    by (simp add: get_seed_products_def)
  from keyword_matches_are_returned [OF mem kw hit] mem kw hit name
  show ?thesis by (simp del: handle.simps)
qed

text \<open>
  C4 as stated fails: for the keyword "wireless" the endpoint returns the Mechanical
  Gaming Keyboard, in whose name and description the keyword does not occur.
\<close>

theorem keyword_filter_counterexample:
  "get_seed_products ! 1 \<in> set (response_products (fst (handle (GetProducts
       \<lparr>min_price = None, max_price = None, category = None, keyword = Some ''wireless''\<rparr>)
       initial_state))) \<and>
   product_name (get_seed_products ! 1) = ''Mechanical Gaming Keyboard'' \<and>
   \<not> spec_keyword_matches ''wireless'' (get_seed_products ! 1)"
proof -
  have mem: "get_seed_products ! 1 \<in> set get_seed_products"
    by (rule nth_mem) (simp add: length_seed)
  have miss: "\<not> spec_keyword_matches ''wireless'' (get_seed_products ! 1)"
    by (simp add: spec_keyword_matches_def get_seed_products_def lower_def lower_char_def)
  have name: "product_name (get_seed_products ! 1) = ''Mechanical Gaming Keyboard''"
    by (simp add: get_seed_products_def)
  from mem miss name show ?thesis
    by (simp only: handle_products_list initial_db) simp
qed

text \<open>
  C5, as amended. Every request with the single criterion \<open>category = electronics\<close>,
  whatever requests were served before it, is answered with status 200 and the complete
  catalog of thirty records. The eight records whose category is "electronics", those
  with the identifiers 1 to 8, are among them, and so are the twenty-two records of the
  other categories.
\<close>

theorem category_electronics_returns_catalog:
  "fst (handle (GetProducts
       \<lparr>min_price = None, max_price = None, category = Some ''electronics'',
        keyword = None\<rparr>) (serve rs initial_state)) =
     \<lparr>status_code = 200,
      body = ProductListBody \<lparr>products = get_seed_products, total_count = 30\<rparr>\<rparr> \<and>
   response_products (fst (handle (GetProducts
       \<lparr>min_price = None, max_price = None, category = Some ''electronics'',
        keyword = None\<rparr>) (serve rs initial_state))) = get_seed_products \<and>
   length get_seed_products = 30 \<and>
   map product_id (filter (\<lambda>p. product_category p = ''electronics'')
     (response_products (fst (handle (GetProducts
       \<lparr>min_price = None, max_price = None, category = Some ''electronics'',
        keyword = None\<rparr>) (serve rs initial_state))))) = [1, 2, 3, 4, 5, 6, 7, 8] \<and>
   length (filter (\<lambda>p. product_category p \<noteq> ''electronics'')
     (response_products (fst (handle (GetProducts
       \<lparr>min_price = None, max_price = None, category = Some ''electronics'',
        keyword = None\<rparr>) (serve rs initial_state))))) = 22"
  by (simp add: handle_products_response serve_db initial_db length_seed electronics_seed
        other_categories_seed del: handle.simps)

text \<open>
  C5 as stated fails: the answer to \<open>category = electronics\<close> has thirty records, and
  its ninth record is of category "clothing".
\<close>

theorem category_electronics_counterexample:
  "length (response_products (fst (handle (GetProducts
       \<lparr>min_price = None, max_price = None, category = Some ''electronics'',
        keyword = None\<rparr>) initial_state))) = 30 \<and>
   product_id (response_products (fst (handle (GetProducts
       \<lparr>min_price = None, max_price = None, category = Some ''electronics'',
        keyword = None\<rparr>) initial_state)) ! 8) = 9 \<and>
   product_category (response_products (fst (handle (GetProducts
       \<lparr>min_price = None, max_price = None, category = Some ''electronics'',
        keyword = None\<rparr>) initial_state)) ! 8) = ''clothing''"
proof -
  have "product_id (get_seed_products ! 8) = 9"
    and "product_category (get_seed_products ! 8) = ''clothing''"
    by (simp_all add: get_seed_products_def)
  then show ?thesis
    by (simp only: handle_products_list initial_db length_seed)
qed

text \<open>
  C6, as amended. For every request whose category parameter is not one of
  electronics, clothing, home, sports and books, no validation fails: the endpoint
  answers 200 with the complete catalog and its count, builds no error response, and
  performs no filtering.
\<close>

theorem unknown_category_is_served:
  assumes "category c = Some cat" and "cat \<notin> set ProductCategory"
  shows "fst (handle (GetProducts c) s) =
           \<lparr>status_code = 200,
            body = ProductListBody \<lparr>products = PRODUCTS_DATABASE s,
                                    total_count = int (length (PRODUCTS_DATABASE s))\<rparr>\<rparr>"
  by (rule handle_products_response)

theorem unknown_category_is_served_witness:
  "category \<lparr>min_price = None, max_price = None, category = Some ''toys'', keyword = None\<rparr>
     = Some ''toys'' \<and>
   ''toys'' \<notin> set ProductCategory \<and>
   fst (handle (GetProducts
       \<lparr>min_price = None, max_price = None, category = Some ''toys'', keyword = None\<rparr>)
       initial_state) =
     \<lparr>status_code = 200,
      body = ProductListBody \<lparr>products = get_seed_products, total_count = 30\<rparr>\<rparr>"
proof -
  let ?c = "\<lparr>min_price = None, max_price = None, category = Some ''toys'', keyword = None\<rparr>"
  have cat: "category ?c = Some ''toys''" by simp
  have bad: "''toys'' \<notin> set ProductCategory" by (simp add: ProductCategory_def)
  from unknown_category_is_served [OF cat bad, of initial_state] cat bad
  show ?thesis by (simp add: initial_db length_seed del: handle.simps)
qed

text \<open>
  C6 as stated fails: for \<open>category = toys\<close>, which is none of the five categories,
  the status is 200 and the body is the product list, not an error.
\<close>

theorem invalid_category_counterexample:
  "''toys'' \<notin> set ProductCategory \<and>
   status_code (fst (handle (GetProducts
       \<lparr>min_price = None, max_price = None, category = Some ''toys'', keyword = None\<rparr>)
       initial_state)) = 200 \<and>
   \<not> is_error_body (body (fst (handle (GetProducts
       \<lparr>min_price = None, max_price = None, category = Some ''toys'', keyword = None\<rparr>)
       initial_state))) \<and>
   response_products (fst (handle (GetProducts
       \<lparr>min_price = None, max_price = None, category = Some ''toys'', keyword = None\<rparr>)
       initial_state)) = get_seed_products"
  by (simp add: handle_products_response initial_db ProductCategory_def del: handle.simps)

text \<open>
  C7. For every set of criteria the records returned are a subsequence of the catalog:
  they keep the relative order they have there.
\<close>

theorem result_is_subsequence_of_catalog:
  "subseq (response_products (fst (handle (GetProducts c) s))) (PRODUCTS_DATABASE s)"
  by (simp only: handle_products_list subseq_order.order_refl)

text \<open>
  C8. The products operation is deterministic over an immutable catalog: whatever
  requests were served before, identical criteria get identical responses, and no
  request changes the catalog, which stays the seed list of thirty records.
\<close>

theorem products_deterministic_catalog_immutable:
  "fst (handle (GetProducts c) (serve rs initial_state)) =
     fst (handle (GetProducts c) (serve rs' initial_state)) \<and>
   PRODUCTS_DATABASE (snd (handle r s)) = PRODUCTS_DATABASE s \<and>
   PRODUCTS_DATABASE (serve rs initial_state) = get_seed_products \<and>
   PRODUCTS_DATABASE (snd (handle r (serve rs initial_state))) = get_seed_products \<and>
   length get_seed_products = 30"
  by (simp only: handle_products_response handle_db serve_db initial_db length_seed)

text \<open>
  C9. Every GET request to the health endpoint, whatever its query, is answered with
  status 200 and the body \<^verbatim>\<open>{"status": "healthy"}\<close>.
\<close>

theorem health_check_healthy:
  "fst (handle (GetHealth q) s) =
     \<lparr>status_code = 200, body = JsonObject [(''status'', ''healthy'')]\<rparr> \<and>
   fst (health_check s) = [(''status'', ''healthy'')]"
  by (simp add: health_check_def Let_def)

text \<open>
  C10. The products handler takes no query parameter and neither validates nor
  filters: whatever criteria the request carries, the response is the one the handler
  computes from the state alone, with status 200, the complete catalog of thirty records
  and a count equal to the length of the list returned; it is never an error response.
\<close>

theorem products_handler_ignores_query:
  "fst (handle (GetProducts c) s) =
     \<lparr>status_code = 200, body = ProductListBody (fst (get_products s))\<rparr> \<and>
   products (fst (get_products s)) = PRODUCTS_DATABASE s \<and>
   total_count (fst (get_products s)) = int (length (products (fst (get_products s)))) \<and>
   \<not> is_error_body (body (fst (handle (GetProducts c) s))) \<and>
   fst (handle (GetProducts c) (serve rs initial_state)) =
     \<lparr>status_code = 200,
      body = ProductListBody \<lparr>products = get_seed_products, total_count = 30\<rparr>\<rparr> \<and>
   length get_seed_products = 30"
  by (simp add: handle_products_response get_products_result serve_db initial_db length_seed
        del: handle.simps)

end
